theory Spec2Isabelle
  imports Complex_Main
begin

section \<open>Enrollment System API: billing reconciliation\<close>

text \<open>
  A shallow embedding of \<^verbatim>\<open>backend/main.py\<close> and \<^verbatim>\<open>schemas.py\<close>: the subject lookup
  (\<^verbatim>\<open>get_subject\<close>), the enrollment handler (\<^verbatim>\<open>create_enrollment\<close>) and the payment handler
  (\<^verbatim>\<open>create_payment\<close>), over an explicit model of the four MongoDB collections they touch.

  Conventions of the model.
  \<^item> Python's \<^verbatim>\<open>float\<close> is modelled as \<open>real\<close>: rounding, infinities and NaN are outside
    the model.
  \<^item> A handler returns its response (or the exception that leaves it) together with the
    database it leaves behind, so that the writes made before an exception stay visible.
  \<^item> \<^verbatim>\<open>datetime.utcnow()\<close> is the argument \<open>now\<close> of a handler.
  \<^item> Every document of a collection is written through its pydantic schema, so the
    fields a handler reads with \<^verbatim>\<open>.get(key, default)\<close> are always present and a document
    is a record.
\<close>

subsection \<open>Exceptions\<close>

datatype error =
    HTTPException nat string   \<comment> \<open>status code and detail\<close>
  | InvalidId                  \<comment> \<open>\<^verbatim>\<open>bson.errors.InvalidId\<close>, raised by \<^verbatim>\<open>ObjectId(...)\<close>\<close>
  | TypeError                  \<comment> \<open>subscripting \<^verbatim>\<open>None\<close>\<close>
  | AttributeError             \<comment> \<open>\<^verbatim>\<open>None.get\<close>\<close>

subsection \<open>Object identifiers\<close>

text \<open>
  A BSON object identifier is a 12-byte value, read here as a natural number.
  \<^verbatim>\<open>ObjectId(s)\<close> accepts a string of exactly 24 hexadecimal digits (either case) and raises
  \<^verbatim>\<open>InvalidId\<close> otherwise; \<^verbatim>\<open>str(oid)\<close> prints 24 lower-case hexadecimal digits.
  (The library is not part of the repository; white space inside the 24 characters, which
  \<^verbatim>\<open>bytes.fromhex\<close> skips, is read here as malformed.)
\<close>

type_synonym oid = nat

definition hex_val :: "char \<Rightarrow> nat option" where
  "hex_val c =
     (let n = (of_char c :: nat) in
      if 48 \<le> n \<and> n \<le> 57 then Some (n - 48)
      else if 97 \<le> n \<and> n \<le> 102 then Some (n - 87)
      else if 65 \<le> n \<and> n \<le> 70 then Some (n - 55)
      else None)"

fun from_hex :: "nat \<Rightarrow> string \<Rightarrow> nat option" where
  "from_hex acc [] = Some acc"
| "from_hex acc (c # cs) =
     (case hex_val c of None \<Rightarrow> None | Some v \<Rightarrow> from_hex (16 * acc + v) cs)"

definition ObjectId :: "string \<Rightarrow> error + oid" where
  "ObjectId s =
     (if length s = 24
      then (case from_hex 0 s of None \<Rightarrow> Inl InvalidId | Some i \<Rightarrow> Inr i)
      else Inl InvalidId)"

definition hex_digit :: "nat \<Rightarrow> char" where
  "hex_digit d = (if d < 10 then char_of (48 + d) else char_of (87 + d))"

fun to_hex :: "nat \<Rightarrow> nat \<Rightarrow> string" where
  "to_hex 0 n = []"
| "to_hex (Suc k) n = to_hex k (n div 16) @ [hex_digit (n mod 16)]"

definition str_oid :: "oid \<Rightarrow> string" where
  "str_oid i = to_hex 24 i"

subsection \<open>Schemas\<close>

record Subject =
  code :: string
  title :: string
  units :: real
  fee_per_unit :: real
  faculty_id :: "string option"

datatype enrollment_status = Enrolled | Dropped | Completed

record Enrollment =
  e_student_id :: string
  e_subject_id :: string
  e_semester :: string
  e_status :: enrollment_status

record BillLine =
  l_subject_id :: string
  l_description :: string
  l_amount :: real

datatype bill_status = Unpaid | Partial | Paid

record Bill =
  b_student_id :: string
  b_semester :: string
  b_lines :: "BillLine list"
  b_total :: real
  b_paid :: real
  b_status :: bill_status
  b_updated_at :: "nat option"

record Payment =
  p_bill_id :: string
  p_amount :: real
  p_cashier_id :: string
  p_paid_at :: nat

text \<open>The request model of \<^verbatim>\<open>POST /payments\<close>: three plain fields, no constraint.\<close>

record PaymentCreate =
  pc_bill_id :: string
  pc_amount :: real
  pc_cashier_id :: string

subsection \<open>The database\<close>

text \<open>
  A collection is the list of its documents in insertion order, each with its
  \<^verbatim>\<open>_id\<close>. \<open>next_id\<close> is the identifier the store assigns next.
\<close>

type_synonym 'a collection = "(oid \<times> 'a) list"

record database =
  subject :: "Subject collection"
  enrollment :: "Enrollment collection"
  bill :: "Bill collection"
  payment :: "Payment collection"
  next_id :: nat

definition find_one_by_id :: "oid \<Rightarrow> 'a collection \<Rightarrow> (oid \<times> 'a) option" where
  "find_one_by_id i c = find (\<lambda>d. fst d = i) c"

fun update_one :: "oid \<Rightarrow> ('a \<Rightarrow> 'a) \<Rightarrow> 'a collection \<Rightarrow> 'a collection" where
  "update_one i f [] = []"
| "update_one i f (d # ds) =
     (if fst d = i then (fst d, f (snd d)) # ds else d # update_one i f ds)"

text \<open>
  Modelled from the spec: \<^verbatim>\<open>create_document\<close> of \<^verbatim>\<open>database.py\<close>, which is not among the
  sources. The spec's Record Store says of it: \<^emph>\<open>persists a new record, returns a newly
  assigned unique identifier\<close>. The handlers pass its result to \<^verbatim>\<open>ObjectId\<close>, so the
  identifier comes back as a string. One function for each collection written to.
\<close>

definition create_document_enrollment :: "database \<Rightarrow> Enrollment \<Rightarrow> string \<times> database" where
  "create_document_enrollment s d =
     (str_oid (next_id s),
      s\<lparr>enrollment := enrollment s @ [(next_id s, d)], next_id := Suc (next_id s)\<rparr>)"

definition create_document_bill :: "database \<Rightarrow> Bill \<Rightarrow> string \<times> database" where
  "create_document_bill s d =
     (str_oid (next_id s),
      s\<lparr>bill := bill s @ [(next_id s, d)], next_id := Suc (next_id s)\<rparr>)"

definition create_document_payment :: "database \<Rightarrow> Payment \<Rightarrow> string \<times> database" where
  "create_document_payment s d =
     (str_oid (next_id s),
      s\<lparr>payment := payment s @ [(next_id s, d)], next_id := Suc (next_id s)\<rparr>)"

subsection \<open>\<^verbatim>\<open>GET /subjects/{subject_id}\<close>\<close>

text \<open>The body of the \<^verbatim>\<open>try\<close> block, then the handler with its \<^verbatim>\<open>except Exception\<close>.\<close>

definition get_subject_try :: "database \<Rightarrow> string \<Rightarrow> error + (string \<times> Subject)" where
  "get_subject_try s subject_id =
     (case ObjectId subject_id of
        Inl e \<Rightarrow> Inl e
      | Inr i \<Rightarrow>
         (case find_one_by_id i (subject s) of
            None \<Rightarrow> Inl (HTTPException 404 ''Subject not found'')
          | Some doc \<Rightarrow> Inr (str_oid (fst doc), snd doc)))"

definition get_subject :: "database \<Rightarrow> string \<Rightarrow> error + (string \<times> Subject)" where
  "get_subject s subject_id =
     (case get_subject_try s subject_id of
        Inl e \<Rightarrow> Inl (HTTPException 400 ''Invalid subject id'')
      | Inr doc \<Rightarrow> Inr doc)"

subsection \<open>\<^verbatim>\<open>POST /enrollments\<close>\<close>

text \<open>Lines 123 to 131: the fee of the subject, 0.0 when the lookup finds nothing or raises.\<close>

definition enrollment_fee :: "database \<Rightarrow> string \<Rightarrow> real" where
  "enrollment_fee s subject_id =
     (case ObjectId subject_id of
        Inl e \<Rightarrow> 0
      | Inr i \<Rightarrow>
         (case find_one_by_id i (subject s) of
            None \<Rightarrow> 0
          | Some doc \<Rightarrow> units (snd doc) * fee_per_unit (snd doc)))"

definition find_bill :: "database \<Rightarrow> string \<Rightarrow> string \<Rightarrow> (oid \<times> Bill) option" where
  "find_bill s student semester =
     find (\<lambda>d. b_student_id (snd d) = student \<and> b_semester (snd d) = semester) (bill s)"

text \<open>
  Lines 133 to 137: the bill of the student and semester, created when there is none.
  The result is what the variable \<^verbatim>\<open>bill\<close> holds afterwards (\<open>None\<close> for Python's \<^verbatim>\<open>None\<close>).
\<close>

definition locate_bill :: "database \<Rightarrow> Enrollment \<Rightarrow> (error + (oid \<times> Bill) option) \<times> database" where
  "locate_bill s enr =
     (case find_bill s (e_student_id enr) (e_semester enr) of
        Some b \<Rightarrow> (Inr (Some b), s)
      | None \<Rightarrow>
         (let bill_doc = \<lparr>b_student_id = e_student_id enr, b_semester = e_semester enr,
                          b_lines = [], b_total = 0, b_paid = 0, b_status = Unpaid,
                          b_updated_at = None\<rparr>;
              (bill_id, s') = create_document_bill s bill_doc
          in case ObjectId bill_id of
               Inl e \<Rightarrow> (Inl e, s')
             | Inr i \<Rightarrow> (Inr (find_one_by_id i (bill s')), s')))"

text \<open>Lines 140 to 145: append the line, read the bill again, store total and status.\<close>

definition add_bill_line :: "nat \<Rightarrow> database \<Rightarrow> (oid \<times> Bill) option \<Rightarrow> BillLine \<Rightarrow> (error + unit) \<times> database" where
  "add_bill_line now s found line =
     (case found of
        None \<Rightarrow> (Inl TypeError, s)
      | Some b0 \<Rightarrow>
         (let s1 = s\<lparr>bill := update_one (fst b0)
                       (\<lambda>d. d\<lparr>b_lines := b_lines d @ [line], b_updated_at := Some now\<rparr>) (bill s)\<rparr>
          in case find_one_by_id (fst b0) (bill s1) of
               None \<Rightarrow> (Inl AttributeError, s1)
             | Some b1 \<Rightarrow>
                (let total = sum_list (map l_amount (b_lines (snd b1)));
                     status = (if b_paid (snd b1) \<ge> total \<and> total > 0 then Paid
                               else if b_paid (snd b1) > 0 then Partial else Unpaid)
                 in (Inr (),
                     s1\<lparr>bill := update_one (fst b1)
                            (\<lambda>d. d\<lparr>b_total := total, b_status := status\<rparr>) (bill s1)\<rparr>))))"

definition create_enrollment :: "nat \<Rightarrow> database \<Rightarrow> Enrollment \<Rightarrow> (error + string) \<times> database" where
  "create_enrollment now s enr =
     (let existing = filter (\<lambda>d. e_student_id (snd d) = e_student_id enr
                                \<and> e_subject_id (snd d) = e_subject_id enr
                                \<and> e_semester (snd d) = e_semester enr) (enrollment s)
      in if existing \<noteq> [] then (Inl (HTTPException 400 ''Already enrolled''), s)
         else
           (let (eid, s1) = create_document_enrollment s enr;
                fee = enrollment_fee s1 (e_subject_id enr)
            in case locate_bill s1 enr of
                 (Inl e, s2) \<Rightarrow> (Inl e, s2)
               | (Inr found, s2) \<Rightarrow>
                  (let line = \<lparr>l_subject_id = e_subject_id enr,
                               l_description = ''Tuition for subject'', l_amount = fee\<rparr>
                   in case add_bill_line now s2 found line of
                        (Inl e, s3) \<Rightarrow> (Inl e, s3)
                      | (Inr u, s3) \<Rightarrow> (Inr eid, s3))))"

subsection \<open>\<^verbatim>\<open>POST /payments\<close>\<close>

definition create_payment :: "nat \<Rightarrow> database \<Rightarrow> PaymentCreate \<Rightarrow> (error + string) \<times> database" where
  "create_payment now s payload =
     (case ObjectId (pc_bill_id payload) of
        Inl e \<Rightarrow> (Inl e, s)
      | Inr i \<Rightarrow>
         (case find_one_by_id i (bill s) of
            None \<Rightarrow> (Inl (HTTPException 404 ''Bill not found''), s)
          | Some b \<Rightarrow>
             (let (pid, s1) = create_document_payment s
                     \<lparr>p_bill_id = pc_bill_id payload, p_amount = pc_amount payload,
                      p_cashier_id = pc_cashier_id payload, p_paid_at = now\<rparr>;
                  paid = b_paid (snd b) + pc_amount payload;
                  status = (if paid \<ge> b_total (snd b) \<and> b_total (snd b) > 0 then Paid
                            else if paid > 0 then Partial else Unpaid)
              in (Inr pid,
                  s1\<lparr>bill := update_one (fst b)
                         (\<lambda>d. d\<lparr>b_paid := paid, b_status := status, b_updated_at := Some now\<rparr>)
                         (bill s1)\<rparr>))))"

subsection \<open>The Status Rule of the specification\<close>

text \<open>
  Section 4.3 of the specification words the rule as: \<^emph>\<open>status = "paid" if paid >= total AND
  total > 0, else status = "partial" if paid > 0, else status = "unpaid"\<close>. The handlers
  compute it in line; this definition follows the specification's words, to compare with.
\<close>

definition status_rule :: "real \<Rightarrow> real \<Rightarrow> bill_status" where
  "status_rule paid_amount total_amount =
     (if paid_amount \<ge> total_amount \<and> total_amount > 0 then Paid
      else if paid_amount > 0 then Partial else Unpaid)"

subsection \<open>Example databases\<close>

definition empty_db :: database where
  "empty_db = \<lparr>subject = [], enrollment = [], bill = [], payment = [], next_id = 0\<rparr>"

definition dropped_db :: database where
  "dropped_db =
     \<lparr>subject = [],
      enrollment = [(0, \<lparr>e_student_id = ''stu1'', e_subject_id = ''math'',
                         e_semester = ''2025-1'', e_status = Dropped\<rparr>)],
      bill = [], payment = [], next_id = 1\<rparr>"

definition billed_db :: database where
  "billed_db =
     \<lparr>subject = [],
      enrollment = [],
      bill = [(255, \<lparr>b_student_id = ''stu1'', b_semester = ''2025-1'',
                     b_lines = [\<lparr>l_subject_id = ''math'', l_description = ''Tuition for subject'',
                                 l_amount = 300\<rparr>],
                     b_total = 300, b_paid = 0, b_status = Unpaid, b_updated_at = None\<rparr>)],
      payment = [], next_id = 256\<rparr>"

definition catalog_db :: database where
  "catalog_db =
     \<lparr>subject = [(255, \<lparr>code = ''CS101'', title = ''Programming'', units = 3,
                        fee_per_unit = 100, faculty_id = None\<rparr>)],
      enrollment = [], bill = [], payment = [], next_id = 256\<rparr>"

subsection \<open>Notions used to state the claims\<close>

text \<open>
  \<open>ids_ok\<close>: the identifiers of the bills are distinct and were assigned by the store, and
  the store can still assign two more 12-byte identifiers. Both handlers keep the first two
  parts (\<open>bill_ids_create_enrollment\<close>, \<open>bill_ids_create_payment\<close> below), and the
  database without documents has all three. \<open>no_duplicate\<close>: the duplicate check
  of \<^verbatim>\<open>create_enrollment\<close> finds nothing. \<open>tuition_line\<close> is the line of line 140,
  \<open>new_bill\<close> the bill of line 135, and \<open>reconciled\<close> the bill after lines 141 to 145.
\<close>

definition ids_ok :: "database \<Rightarrow> bool" where
  "ids_ok s \<longleftrightarrow>
     distinct (map fst (bill s)) \<and> (\<forall>d \<in> set (bill s). fst d < next_id s)
     \<and> Suc (next_id s) < 16 ^ 24"

definition no_duplicate :: "database \<Rightarrow> Enrollment \<Rightarrow> bool" where
  "no_duplicate s enr \<longleftrightarrow>
     filter (\<lambda>d. e_student_id (snd d) = e_student_id enr
                \<and> e_subject_id (snd d) = e_subject_id enr
                \<and> e_semester (snd d) = e_semester enr) (enrollment s) = []"

definition tuition_line :: "database \<Rightarrow> Enrollment \<Rightarrow> BillLine" where
  "tuition_line s enr =
     \<lparr>l_subject_id = e_subject_id enr, l_description = ''Tuition for subject'',
      l_amount = enrollment_fee s (e_subject_id enr)\<rparr>"

definition new_bill :: "Enrollment \<Rightarrow> Bill" where
  "new_bill enr =
     \<lparr>b_student_id = e_student_id enr, b_semester = e_semester enr,
      b_lines = [], b_total = 0, b_paid = 0, b_status = Unpaid, b_updated_at = None\<rparr>"

definition reconciled :: "nat \<Rightarrow> BillLine \<Rightarrow> Bill \<Rightarrow> Bill" where
  "reconciled now line d =
     d\<lparr>b_lines := b_lines d @ [line],
       b_updated_at := Some now,
       b_total := sum_list (map l_amount (b_lines d @ [line])),
       b_status := status_rule (b_paid d) (sum_list (map l_amount (b_lines d @ [line])))\<rparr>"

text \<open>
  \<open>status_rule_holds\<close> is the second testable property of the specification, on one bill:
  \<^emph>\<open>status == "paid" iff paid >= total and total > 0; status == "partial" iff not paid and
  paid > 0; else status == "unpaid"\<close>. \<open>totals_ok\<close>: every stored bill has its total equal
  to the sum of the amounts of its lines. \<open>bill_keys\<close>: the (student, semester) pairs of the
  stored bills, in order.
\<close>

definition status_rule_holds :: "Bill \<Rightarrow> bool" where
  "status_rule_holds b \<longleftrightarrow>
     (b_status b = Paid \<longleftrightarrow> b_paid b \<ge> b_total b \<and> b_total b > 0)
   \<and> (b_status b = Partial \<longleftrightarrow> \<not> (b_paid b \<ge> b_total b \<and> b_total b > 0) \<and> b_paid b > 0)
   \<and> (b_status b = Unpaid \<longleftrightarrow> \<not> (b_paid b \<ge> b_total b \<and> b_total b > 0) \<and> \<not> b_paid b > 0)"

definition totals_ok :: "database \<Rightarrow> bool" where
  "totals_ok s \<longleftrightarrow>
     list_all (\<lambda>d. b_total (snd d) = sum_list (map l_amount (b_lines (snd d)))) (bill s)"

definition bill_keys :: "database \<Rightarrow> (string \<times> string) list" where
  "bill_keys s = map (\<lambda>d. (b_student_id (snd d), b_semester (snd d))) (bill s)"

section \<open>Auxiliary facts\<close>

subsection \<open>Identifiers print and parse back\<close>

lemma hex_val_hex_digit: "d < 16 \<Longrightarrow> hex_val (hex_digit d) = Some d"
  by (simp add: hex_val_def hex_digit_def Let_def)

lemma from_hex_snoc:
  "from_hex acc (cs @ [c]) =
     (case from_hex acc cs of None \<Rightarrow> None
      | Some a \<Rightarrow> (case hex_val c of None \<Rightarrow> None | Some v \<Rightarrow> Some (16 * a + v)))"
  by (induction cs arbitrary: acc) (auto split: option.splits)

lemma length_to_hex: "length (to_hex k n) = k"
  by (induction k arbitrary: n) auto

lemma from_hex_to_hex: "from_hex 0 (to_hex k n) = Some (n mod 16 ^ k)"
proof (induction k arbitrary: n)
  case 0
  show ?case by simp
next
  case (Suc k)
  have "n mod (16 * 16 ^ k) = 16 * (n div 16 mod 16 ^ k) + n mod 16"
    by (rule mod_mult2_eq)
  then show ?case
    by (simp add: from_hex_snoc Suc hex_val_hex_digit)
qed

lemma ObjectId_str_oid: "i < 16 ^ 24 \<Longrightarrow> ObjectId (str_oid i) = Inr i"
  by (simp add: ObjectId_def str_oid_def length_to_hex from_hex_to_hex)

subsection \<open>Facts about collections\<close>

lemma find_one_by_id_fst: "find_one_by_id i c = Some d \<Longrightarrow> fst d = i \<and> d \<in> set c"
  unfolding find_one_by_id_def by (induction c) (auto split: if_splits)

lemma find_one_by_id_None: "find_one_by_id i c = None \<longleftrightarrow> i \<notin> fst ` set c"
  unfolding find_one_by_id_def by (induction c) auto

lemma find_one_by_id_distinct:
  "distinct (map fst c) \<Longrightarrow> (i, b) \<in> set c \<Longrightarrow> find_one_by_id i c = Some (i, b)"
  unfolding find_one_by_id_def by (induction c) (auto simp: rev_image_eqI)

lemma find_one_by_id_snoc:
  "i \<notin> fst ` set c \<Longrightarrow> find_one_by_id i (c @ [(i, b)]) = Some (i, b)"
  unfolding find_one_by_id_def by (induction c) auto

lemma update_one_snoc:
  "i \<notin> fst ` set c \<Longrightarrow> update_one i f (c @ [(i, b)]) = c @ [(i, f b)]"
  by (induction c) auto

lemma update_one_absent: "i \<notin> fst ` set c \<Longrightarrow> update_one i f c = c"
  by (induction c) auto

lemma map_fst_update_one: "map fst (update_one i f c) = map fst c"
  by (induction c) auto

lemma find_one_by_id_update_one:
  "find_one_by_id i (update_one i f c) =
     map_option (\<lambda>d. (fst d, f (snd d))) (find_one_by_id i c)"
  unfolding find_one_by_id_def by (induction c) auto

lemma update_one_twice: "update_one i g (update_one i f c) = update_one i (\<lambda>d. g (f d)) c"
  by (induction c) auto

lemma update_one_cong_found:
  "find_one_by_id i c = Some d \<Longrightarrow> f (snd d) = g (snd d) \<Longrightarrow> update_one i f c = update_one i g c"
  unfolding find_one_by_id_def by (induction c) (auto split: if_splits)

subsection \<open>Identifiers used in the examples\<close>

lemma ObjectId_zero: "ObjectId ''000000000000000000000000'' = Inr 0"
  by (simp add: ObjectId_def hex_val_def)

lemma ObjectId_ff: "ObjectId ''0000000000000000000000ff'' = Inr 255"
  by (simp add: ObjectId_def hex_val_def)

lemma ObjectId_xyz: "ObjectId ''xyz'' = Inl InvalidId"
  by (simp add: ObjectId_def)

lemma ObjectId_math: "ObjectId ''math'' = Inl InvalidId"
  by (simp add: ObjectId_def)

subsection \<open>Exceptions that leave the enrollment handler\<close>

lemma locate_bill_error: "locate_bill s enr = (Inl e, s') \<Longrightarrow> e = InvalidId"
  by (auto simp: locate_bill_def create_document_bill_def ObjectId_def Let_def
      split: option.splits sum.splits if_splits)

lemma add_bill_line_error:
  "add_bill_line now s found line = (Inl e, s') \<Longrightarrow> e = TypeError \<or> e = AttributeError"
  by (auto simp: add_bill_line_def Let_def split: option.splits)

subsection \<open>What the enrollment handler leaves behind\<close>

lemma enrollment_fee_cong: "subject s' = subject s \<Longrightarrow> enrollment_fee s' x = enrollment_fee s x"
  by (simp add: enrollment_fee_def split: sum.splits)

lemma add_bill_line_found:
  assumes "find_one_by_id i (bill s) = Some (i, b)"
  shows "add_bill_line now s (Some (i, b0)) line
           = (Inr (), s\<lparr>bill := update_one i (reconciled now line) (bill s)\<rparr>)"
proof -
  define f :: "Bill \<Rightarrow> Bill" where "f = (\<lambda>d. d\<lparr>b_lines := b_lines d @ [line], b_updated_at := Some now\<rparr>)"
  define t where "t = sum_list (map l_amount (b_lines (f b)))"
  define st where "st = (if b_paid (f b) \<ge> t \<and> t > 0 then Paid
                         else if b_paid (f b) > 0 then Partial else Unpaid)"
  have found: "find_one_by_id i (update_one i f (bill s)) = Some (i, f b)"
    by (simp add: find_one_by_id_update_one assms)
  have step: "add_bill_line now s (Some (i, b0)) line
      = (Inr (), s\<lparr>bill := update_one i (\<lambda>d. d\<lparr>b_total := t, b_status := st\<rparr>)
                                (update_one i f (bill s))\<rparr>)"
    using found unfolding add_bill_line_def f_def t_def st_def by (simp add: Let_def)
  have "update_one i (\<lambda>d. d\<lparr>b_total := t, b_status := st\<rparr>) (update_one i f (bill s))
          = update_one i (\<lambda>d. (f d)\<lparr>b_total := t, b_status := st\<rparr>) (bill s)"
    by (rule update_one_twice)
  also have "\<dots> = update_one i (reconciled now line) (bill s)"
    by (rule update_one_cong_found [OF assms])
       (simp add: reconciled_def status_rule_def f_def t_def st_def)
  finally show ?thesis
    by (simp only: step)
qed

lemma find_bill_in_set:
  "find_bill s stu sem = Some d \<Longrightarrow> d \<in> set (bill s) \<and> b_student_id (snd d) = stu \<and> b_semester (snd d) = sem"
  unfolding find_bill_def by (induction "bill s" arbitrary: s) (auto simp: find_Some_iff)

lemma create_enrollment_existing_bill:
  assumes "distinct (map fst (bill s))" and "no_duplicate s enr"
    and "find_bill s (e_student_id enr) (e_semester enr) = Some b"
  shows "create_enrollment now s enr
           = (Inr (str_oid (next_id s)),
              s\<lparr>enrollment := enrollment s @ [(next_id s, enr)],
                bill := update_one (fst b) (reconciled now (tuition_line s enr)) (bill s),
                next_id := Suc (next_id s)\<rparr>)"
proof -
  let ?s1 = "s\<lparr>enrollment := enrollment s @ [(next_id s, enr)], next_id := Suc (next_id s)\<rparr>"
  have "b \<in> set (bill s)"
    using find_bill_in_set [OF assms(3)] by simp
  then have "find_one_by_id (fst b) (bill s) = Some (fst b, snd b)"
    using find_one_by_id_distinct [OF assms(1), of "fst b" "snd b"] by simp
  then have "find_one_by_id (fst b) (bill ?s1) = Some (fst b, snd b)"
    by simp
  from add_bill_line_found [OF this, of now "snd b" "tuition_line s enr"]
  have al: "add_bill_line now ?s1 (Some b) (tuition_line s enr)
          = (Inr (), ?s1\<lparr>bill := update_one (fst b) (reconciled now (tuition_line s enr)) (bill ?s1)\<rparr>)"
    by simp
  have lb: "locate_bill ?s1 enr = (Inr (Some b), ?s1)"
    using assms(3) by (simp add: locate_bill_def find_bill_def)
  have fee: "enrollment_fee ?s1 (e_subject_id enr) = enrollment_fee s (e_subject_id enr)"
    by (rule enrollment_fee_cong) simp
  show ?thesis
    using assms(2) lb al fee
    by (simp add: create_enrollment_def no_duplicate_def Let_def create_document_enrollment_def
        tuition_line_def)
qed

lemma create_enrollment_new_bill:
  assumes "\<forall>d \<in> set (bill s). fst d < next_id s" and "Suc (next_id s) < 16 ^ 24"
    and "no_duplicate s enr"
    and "find_bill s (e_student_id enr) (e_semester enr) = None"
  shows "create_enrollment now s enr
           = (Inr (str_oid (next_id s)),
              s\<lparr>enrollment := enrollment s @ [(next_id s, enr)],
                bill := bill s @ [(Suc (next_id s), reconciled now (tuition_line s enr) (new_bill enr))],
                next_id := Suc (Suc (next_id s))\<rparr>)"
proof -
  let ?n = "next_id s"
  let ?s1 = "s\<lparr>enrollment := enrollment s @ [(?n, enr)], next_id := Suc ?n\<rparr>"
  let ?s2 = "?s1\<lparr>bill := bill s @ [(Suc ?n, new_bill enr)], next_id := Suc (Suc ?n)\<rparr>"
  have fresh: "Suc ?n \<notin> fst ` set (bill s)"
    using assms(1) by fastforce
  have oid: "ObjectId (str_oid (Suc ?n)) = Inr (Suc ?n)"
    by (rule ObjectId_str_oid) (rule assms(2))
  have f2: "find_one_by_id (Suc ?n) (bill ?s2) = Some (Suc ?n, new_bill enr)"
    using fresh by (simp add: find_one_by_id_snoc)
  have lb: "locate_bill ?s1 enr = (Inr (Some (Suc ?n, new_bill enr)), ?s2)"
    using assms(4) oid f2
    by (simp add: locate_bill_def find_bill_def create_document_bill_def new_bill_def Let_def)
  from add_bill_line_found [OF f2, of now "new_bill enr" "tuition_line s enr"]
  have al: "add_bill_line now ?s2 (Some (Suc ?n, new_bill enr)) (tuition_line s enr)
          = (Inr (), ?s2\<lparr>bill := bill s @ [(Suc ?n, reconciled now (tuition_line s enr) (new_bill enr))]\<rparr>)"
    using fresh by (simp add: update_one_snoc)
  have fee: "enrollment_fee ?s1 (e_subject_id enr) = enrollment_fee s (e_subject_id enr)"
    by (rule enrollment_fee_cong) simp
  show ?thesis
    using assms(3) lb al fee
    by (simp add: create_enrollment_def no_duplicate_def Let_def create_document_enrollment_def
        tuition_line_def)
qed

lemma status_rule_holds_iff:
  "status_rule_holds b \<longleftrightarrow> b_status b = status_rule (b_paid b) (b_total b)"
  by (cases "b_status b") (auto simp: status_rule_holds_def status_rule_def)

lemma reconciled_fields [simp]:
  "b_student_id (reconciled now line d) = b_student_id d"
  "b_semester (reconciled now line d) = b_semester d"
  "b_paid (reconciled now line d) = b_paid d"
  "b_lines (reconciled now line d) = b_lines d @ [line]"
  "b_total (reconciled now line d) = sum_list (map l_amount (b_lines d @ [line]))"
  "b_status (reconciled now line d) = status_rule (b_paid d) (sum_list (map l_amount (b_lines d @ [line])))"
  by (simp_all add: reconciled_def)

lemma find_update_one_key:
  assumes "distinct (map fst c)" and "find (\<lambda>d. P (snd d)) c = Some b"
    and "\<And>x. P (f x) = P x"
  shows "find (\<lambda>d. P (snd d)) (update_one (fst b) f c) = Some (fst b, f (snd b))"
  using assms(1,2)
proof (induction c)
  case Nil
  then show ?case by simp
next
  case (Cons d c)
  show ?case
  proof (cases "P (snd d)")
    case True
    with Cons.prems show ?thesis by (simp add: assms(3))
  next
    case False
    with Cons.prems have fb: "find (\<lambda>d. P (snd d)) c = Some b" by simp
    then have "b \<in> set c" by (auto simp: find_Some_iff)
    with Cons.prems(1) have "fst d \<noteq> fst b" by (auto simp: rev_image_eqI)
    with False Cons.IH fb Cons.prems(1) show ?thesis by simp
  qed
qed

lemma find_snoc_new: "find P c = None \<Longrightarrow> P x \<Longrightarrow> find P (c @ [x]) = Some x"
  by (induction c) (auto split: if_splits)

lemma create_enrollment_success_no_duplicate:
  "fst (create_enrollment now s enr) = Inr eid \<Longrightarrow> no_duplicate s enr"
  by (auto simp: create_enrollment_def no_duplicate_def Let_def split: if_splits)

lemma create_enrollment_post:
  assumes "ids_ok s" and "no_duplicate s enr"
  shows "\<exists>i b0. fst (create_enrollment now s enr) = Inr (str_oid (next_id s))
           \<and> find_bill (snd (create_enrollment now s enr)) (e_student_id enr) (e_semester enr)
               = Some (i, reconciled now (tuition_line s enr) b0)
           \<and> (find_bill s (e_student_id enr) (e_semester enr) = Some (i, b0)
               \<or> find_bill s (e_student_id enr) (e_semester enr) = None \<and> b0 = new_bill enr)"
proof (cases "find_bill s (e_student_id enr) (e_semester enr)")
  case None
  have a1: "\<forall>d \<in> set (bill s). fst d < next_id s" and a2: "Suc (next_id s) < 16 ^ 24"
    using assms(1) by (simp_all add: ids_ok_def)
  have "find_bill (snd (create_enrollment now s enr)) (e_student_id enr) (e_semester enr)
          = Some (Suc (next_id s), reconciled now (tuition_line s enr) (new_bill enr))"
    using None
    by (simp add: create_enrollment_new_bill [OF a1 a2 assms(2) None] find_bill_def
        find_snoc_new new_bill_def)
  then show ?thesis
    using None by (simp add: create_enrollment_new_bill [OF a1 a2 assms(2) None])
next
  case (Some b)
  have d: "distinct (map fst (bill s))"
    using assms(1) by (simp add: ids_ok_def)
  have "find (\<lambda>d. (\<lambda>x. b_student_id x = e_student_id enr \<and> b_semester x = e_semester enr) (snd d))
          (update_one (fst b) (reconciled now (tuition_line s enr)) (bill s))
        = Some (fst b, reconciled now (tuition_line s enr) (snd b))"
    using Some by (intro find_update_one_key [OF d]) (simp_all add: find_bill_def)
  then have "find_bill (snd (create_enrollment now s enr)) (e_student_id enr) (e_semester enr)
          = Some (fst b, reconciled now (tuition_line s enr) (snd b))"
    by (simp add: create_enrollment_existing_bill [OF d assms(2) Some] find_bill_def)
  then show ?thesis
    using Some
    by (intro exI [of _ "fst b"] exI [of _ "snd b"])
       (simp add: create_enrollment_existing_bill [OF d assms(2) Some])
qed

lemma create_payment_success:
  assumes "fst (create_payment now s payload) = Inr pid"
  shows "\<exists>i b. ObjectId (pc_bill_id payload) = Inr i \<and> find_one_by_id i (bill s) = Some (i, b)
          \<and> find_one_by_id i (bill (snd (create_payment now s payload)))
              = Some (i, b\<lparr>b_paid := b_paid b + pc_amount payload,
                           b_status := status_rule (b_paid b + pc_amount payload) (b_total b),
                           b_updated_at := Some now\<rparr>)"
proof (cases "ObjectId (pc_bill_id payload)")
  case (Inl e)
  with assms show ?thesis by (simp add: create_payment_def)
next
  case (Inr i)
  show ?thesis
  proof (cases "find_one_by_id i (bill s)")
    case None
    with Inr assms show ?thesis by (simp add: create_payment_def)
  next
    case (Some d)
    then have "fst d = i" by (simp add: find_one_by_id_fst)
    then have "find_one_by_id i (bill s) = Some (i, snd d)"
      using Some by (cases d) simp
    then show ?thesis
      using Inr
      by (simp add: create_payment_def create_document_payment_def Let_def status_rule_def
          find_one_by_id_update_one)
  qed
qed

subsection \<open>The bills after a handler, whatever its outcome\<close>

lemma add_bill_line_bill:
  "bill (snd (add_bill_line now s found line))
     = (case found of None \<Rightarrow> bill s
        | Some b0 \<Rightarrow> update_one (fst b0) (reconciled now line) (bill s))"
proof (cases found)
  case None
  then show ?thesis by (simp add: add_bill_line_def)
next
  case (Some b0)
  show ?thesis
  proof (cases "find_one_by_id (fst b0) (bill s)")
    case None
    then have "fst b0 \<notin> fst ` set (bill s)"
      by (simp add: find_one_by_id_None)
    then show ?thesis
      using Some None
      by (simp add: add_bill_line_def Let_def update_one_absent find_one_by_id_update_one)
  next
    case (Some d)
    then have "find_one_by_id (fst b0) (bill s) = Some (fst b0, snd d)"
      using find_one_by_id_fst [OF Some] by (cases d) simp
    from add_bill_line_found [OF this, of now "snd b0" line]
    show ?thesis
      using \<open>found = Some b0\<close> by simp
  qed
qed

lemma add_bill_line_next_id: "next_id (snd (add_bill_line now s found line)) = next_id s"
  by (simp add: add_bill_line_def Let_def split: option.splits)

lemma locate_bill_bill:
  "(\<exists>b. find_bill s (e_student_id enr) (e_semester enr) = Some b
        \<and> locate_bill s enr = (Inr (Some b), s))
   \<or> (find_bill s (e_student_id enr) (e_semester enr) = None
        \<and> bill (snd (locate_bill s enr)) = bill s @ [(next_id s, new_bill enr)]
        \<and> next_id (snd (locate_bill s enr)) = Suc (next_id s))"
  by (cases "find_bill s (e_student_id enr) (e_semester enr)")
     (auto simp: locate_bill_def create_document_bill_def new_bill_def Let_def split: sum.splits)

lemma create_enrollment_bill_shape:
  "\<exists>c. (c = bill s \<and> next_id s \<le> next_id (snd (create_enrollment now s enr))
          \<or> c = bill s @ [(Suc (next_id s), new_bill enr)]
             \<and> find_bill s (e_student_id enr) (e_semester enr) = None
             \<and> next_id (snd (create_enrollment now s enr)) = Suc (Suc (next_id s)))
       \<and> (bill (snd (create_enrollment now s enr)) = c
          \<or> (\<exists>i line. bill (snd (create_enrollment now s enr)) = update_one i (reconciled now line) c))"
proof (cases "no_duplicate s enr")
  case False
  then have "snd (create_enrollment now s enr) = s"
    by (simp add: create_enrollment_def no_duplicate_def Let_def)
  then show ?thesis by simp
next
  case True
  let ?s' = "snd (create_enrollment now s enr)"
  let ?s1 = "s\<lparr>enrollment := enrollment s @ [(next_id s, enr)], next_id := Suc (next_id s)\<rparr>"
  obtain r s2 where lb: "locate_bill ?s1 enr = (r, s2)"
    by (cases "locate_bill ?s1 enr")
  have fb: "find_bill ?s1 (e_student_id enr) (e_semester enr)
              = find_bill s (e_student_id enr) (e_semester enr)"
    by (simp add: find_bill_def)
  from locate_bill_bill [of ?s1 enr] lb fb
  have c: "bill s2 = bill s \<and> next_id s2 = Suc (next_id s)
      \<or> bill s2 = bill s @ [(Suc (next_id s), new_bill enr)]
         \<and> find_bill s (e_student_id enr) (e_semester enr) = None
         \<and> next_id s2 = Suc (Suc (next_id s))"
    by auto
  have "bill ?s' = bill s2 \<and> next_id ?s' = next_id s2
      \<or> (\<exists>i line. bill ?s' = update_one i (reconciled now line) (bill s2)) \<and> next_id ?s' = next_id s2"
  proof (cases r)
    case (Inl e)
    then have "?s' = s2"
      using True lb
      by (simp add: create_enrollment_def no_duplicate_def Let_def create_document_enrollment_def)
    then show ?thesis by simp
  next
    case (Inr found)
    let ?line = "\<lparr>l_subject_id = e_subject_id enr, l_description = ''Tuition for subject'',
                   l_amount = enrollment_fee ?s1 (e_subject_id enr)\<rparr>"
    have "?s' = snd (add_bill_line now s2 found ?line)"
      using True lb Inr
      by (simp add: create_enrollment_def no_duplicate_def Let_def create_document_enrollment_def
          split: prod.splits sum.splits)
    then have "bill ?s' = (case found of None \<Rightarrow> bill s2
           | Some b0 \<Rightarrow> update_one (fst b0) (reconciled now ?line) (bill s2))"
      and "next_id ?s' = next_id s2"
      by (simp_all add: add_bill_line_bill add_bill_line_next_id)
    then show ?thesis
      by (cases found) auto
  qed
  with c show ?thesis
    by (elim disjE conjE exE) auto
qed

lemma bill_ids_create_enrollment:
  assumes "distinct (map fst (bill s))" and "\<forall>d \<in> set (bill s). fst d < next_id s"
  shows "distinct (map fst (bill (snd (create_enrollment now s enr))))
     \<and> (\<forall>d \<in> set (bill (snd (create_enrollment now s enr))).
           fst d < next_id (snd (create_enrollment now s enr)))"
proof -
  let ?s' = "snd (create_enrollment now s enr)"
  from create_enrollment_bill_shape [of s now enr]
  obtain c where c: "c = bill s \<and> next_id s \<le> next_id ?s'
          \<or> c = bill s @ [(Suc (next_id s), new_bill enr)] \<and> next_id ?s' = Suc (Suc (next_id s))"
    and u: "bill ?s' = c \<or> (\<exists>i line. bill ?s' = update_one i (reconciled now line) c)"
    by blast
  from u have r: "map fst (bill ?s') = map fst c"
    by (auto simp: map_fst_update_one)
  from assms(2) have "Suc (next_id s) \<notin> fst ` set (bill s)"
    by fastforce
  with c assms have "distinct (map fst c) \<and> (\<forall>i \<in> set (map fst c). i < next_id ?s')"
    by (elim disjE conjE) (auto simp: less_Suc_eq)
  with r show ?thesis
    by (simp add: Ball_def) (metis fst_conv image_eqI set_map)
qed

lemma bill_ids_create_payment:
  "map fst (bill (snd (create_payment now s payload))) = map fst (bill s)
   \<and> next_id s \<le> next_id (snd (create_payment now s payload))"
  by (auto simp: create_payment_def create_document_payment_def Let_def map_fst_update_one
      split: sum.splits option.splits)

lemma list_all_update_one:
  "list_all Q c \<Longrightarrow> (\<And>d. Q d \<Longrightarrow> Q (fst d, f (snd d))) \<Longrightarrow> list_all Q (update_one i f c)"
  by (induction c) auto

lemma map_update_one_unchanged:
  "(\<And>x. g (f x) = g x) \<Longrightarrow>
     map (\<lambda>d. (fst d, g (snd d))) (update_one i f c) = map (\<lambda>d. (fst d, g (snd d))) c"
  by (induction c) auto

lemma map_snd_update_one_unchanged:
  "(\<And>x. g (f x) = g x) \<Longrightarrow>
     map (\<lambda>d. g (snd d)) (update_one i f c) = map (\<lambda>d. g (snd d)) c"
  by (induction c) auto

lemma create_payment_bill_shape:
  "bill (snd (create_payment now s payload)) = bill s
   \<or> (\<exists>i b. bill (snd (create_payment now s payload))
        = update_one i (\<lambda>d. d\<lparr>b_paid := b_paid b + pc_amount payload,
                                b_status := status_rule (b_paid b + pc_amount payload) (b_total b),
                                b_updated_at := Some now\<rparr>) (bill s)
        \<and> find_one_by_id i (bill s) = Some (i, b))"
proof (cases "ObjectId (pc_bill_id payload)")
  case (Inl e)
  then show ?thesis by (simp add: create_payment_def)
next
  case (Inr i)
  show ?thesis
  proof (cases "find_one_by_id i (bill s)")
    case None
    with Inr show ?thesis by (simp add: create_payment_def)
  next
    case (Some d)
    then have "find_one_by_id i (bill s) = Some (i, snd d)"
      using find_one_by_id_fst [OF Some] by (cases d) simp
    then show ?thesis
      using Inr
      by (intro disjI2 exI [of _ i] exI [of _ "snd d"])
         (simp add: create_payment_def create_document_payment_def Let_def status_rule_def)
  qed
qed

lemma create_enrollment_enrollments:
  assumes "ids_ok s" and "no_duplicate s enr"
  shows "enrollment (snd (create_enrollment now s enr)) = enrollment s @ [(next_id s, enr)]"
proof (cases "find_bill s (e_student_id enr) (e_semester enr)")
  case None
  have a1: "\<forall>d \<in> set (bill s). fst d < next_id s" and a2: "Suc (next_id s) < 16 ^ 24"
    using assms(1) by (simp_all add: ids_ok_def)
  show ?thesis
    by (simp add: create_enrollment_new_bill [OF a1 a2 assms(2) None])
next
  case (Some b)
  have d: "distinct (map fst (bill s))"
    using assms(1) by (simp add: ids_ok_def)
  show ?thesis
    by (simp add: create_enrollment_existing_bill [OF d assms(2) Some])
qed

subsection \<open>The keys of the bills\<close>

lemma find_None_filter: "find P c = None \<longleftrightarrow> filter P c = []"
  by (induction c) auto

lemma bill_keys_create_enrollment:
  "distinct (bill_keys s) \<Longrightarrow> distinct (bill_keys (snd (create_enrollment now s enr)))"
proof -
  assume d: "distinct (bill_keys s)"
  let ?k = "\<lambda>b. (b_student_id b, b_semester b)"
  from create_enrollment_bill_shape [of s now enr]
  obtain c where c: "c = bill s
          \<or> c = bill s @ [(Suc (next_id s), new_bill enr)]
             \<and> find_bill s (e_student_id enr) (e_semester enr) = None"
    and r: "bill (snd (create_enrollment now s enr)) = c
          \<or> (\<exists>i line. bill (snd (create_enrollment now s enr)) = update_one i (reconciled now line) c)"
    by blast
  have "distinct (map (\<lambda>d. ?k (snd d)) c)"
  proof (cases "c = bill s")
    case True
    with d show ?thesis by (simp add: bill_keys_def)
  next
    case False
    with c have c': "c = bill s @ [(Suc (next_id s), new_bill enr)]"
      and n: "find_bill s (e_student_id enr) (e_semester enr) = None"
      by auto
    from n have "\<forall>d \<in> set (bill s). \<not> (b_student_id (snd d) = e_student_id enr
                                        \<and> b_semester (snd d) = e_semester enr)"
      by (auto simp: find_bill_def find_None_iff)
    then have "(e_student_id enr, e_semester enr) \<notin> set (map (\<lambda>d. ?k (snd d)) (bill s))"
      by auto
    with d show ?thesis
      by (simp add: c' bill_keys_def new_bill_def)
  qed
  moreover have "map (\<lambda>d. ?k (snd d)) (update_one i (reconciled now line) c) = map (\<lambda>d. ?k (snd d)) c"
    for i line
    by (rule map_snd_update_one_unchanged) simp
  ultimately have "distinct (map (\<lambda>d. ?k (snd d)) (bill (snd (create_enrollment now s enr))))"
    using r by auto
  then show ?thesis
    by (simp add: bill_keys_def)
qed

lemma bill_keys_create_payment:
  "bill_keys (snd (create_payment now s payload)) = bill_keys s"
proof -
  have "map (\<lambda>d. (\<lambda>b. (b_student_id b, b_semester b)) (snd d)) (update_one i
            (\<lambda>d. d\<lparr>b_paid := p, b_status := st, b_updated_at := u\<rparr>) (bill s))
        = map (\<lambda>d. (\<lambda>b. (b_student_id b, b_semester b)) (snd d)) (bill s)" for i p st u
    by (rule map_snd_update_one_unchanged) simp
  with create_payment_bill_shape [of now s payload] show ?thesis
    by (auto simp: bill_keys_def)
qed

lemma list_all2_update_one:
  "(\<And>d. R d d) \<Longrightarrow> (\<And>d. R d (fst d, f (snd d))) \<Longrightarrow> list_all2 R c (update_one i f c)"
  by (induction c) (auto simp: list_all2_refl)

section \<open>The claims\<close>

text \<open>
  C9 (the code differs). The claim: get-subject-by-id fails with 404 for a well-formed id that
  matches no stored subject, and with 400 for a malformed id. In the code the 404 is raised
  inside the \<^verbatim>\<open>try\<close> block and \<^verbatim>\<open>except Exception\<close> catches it: on the empty database, the
  well-formed id of 24 zeros reaches the 404 in the \<^verbatim>\<open>try\<close> body and leaves the handler as
  400 "Invalid subject id".
\<close>

theorem get_subject_absent_400:
  "get_subject_try empty_db ''000000000000000000000000'' = Inl (HTTPException 404 ''Subject not found'')
   \<and> get_subject empty_db ''000000000000000000000000'' = Inl (HTTPException 400 ''Invalid subject id'')"
  by (simp add: get_subject_def get_subject_try_def ObjectId_zero find_one_by_id_def empty_db_def)

text \<open>
  C3. When an enrollment with the same student, subject and semester is already stored,
  \<^verbatim>\<open>create_enrollment\<close> raises the 400 "Already enrolled" and leaves the whole database as it
  was: no enrollment is stored, and no bill changes its lines, total, paid or status.
\<close>

theorem duplicate_enrollment_rejected:
  assumes "(i, d) \<in> set (enrollment s)"
    and "e_student_id d = e_student_id enr"
    and "e_subject_id d = e_subject_id enr"
    and "e_semester d = e_semester enr"
  shows "create_enrollment now s enr = (Inl (HTTPException 400 ''Already enrolled''), s)"
proof -
  have "filter (\<lambda>d. e_student_id (snd d) = e_student_id enr
                   \<and> e_subject_id (snd d) = e_subject_id enr
                   \<and> e_semester (snd d) = e_semester enr) (enrollment s) \<noteq> []"
    using assms by (force simp: filter_empty_conv)
  then show ?thesis
    by (simp add: create_enrollment_def Let_def)
qed

theorem duplicate_enrollment_rejected_witness:
  "create_enrollment 7 dropped_db
      \<lparr>e_student_id = ''stu1'', e_subject_id = ''math'', e_semester = ''2025-1'', e_status = Enrolled\<rparr>
    = (Inl (HTTPException 400 ''Already enrolled''), dropped_db)"
  using duplicate_enrollment_rejected [of 0
      "\<lparr>e_student_id = ''stu1'', e_subject_id = ''math'', e_semester = ''2025-1'', e_status = Dropped\<rparr>"
      dropped_db
      "\<lparr>e_student_id = ''stu1'', e_subject_id = ''math'', e_semester = ''2025-1'', e_status = Enrolled\<rparr>" 7]
  by (simp add: dropped_db_def)

text \<open>
  C10. The duplicate check looks at student, subject and semester only: the handler answers
  400 "Already enrolled" exactly when a stored enrollment has the same three fields, whatever
  the status of that stored enrollment (the example has one that is dropped).
\<close>

theorem duplicate_check_ignores_status:
  "fst (create_enrollment now s enr) = Inl (HTTPException 400 ''Already enrolled'')
   \<longleftrightarrow> (\<exists>d \<in> set (enrollment s).
          e_student_id (snd d) = e_student_id enr
        \<and> e_subject_id (snd d) = e_subject_id enr
        \<and> e_semester (snd d) = e_semester enr)"
proof (cases "filter (\<lambda>d. e_student_id (snd d) = e_student_id enr
                   \<and> e_subject_id (snd d) = e_subject_id enr
                   \<and> e_semester (snd d) = e_semester enr) (enrollment s) = []")
  case True
  have "fst (create_enrollment now s enr) \<noteq> Inl (HTTPException 400 ''Already enrolled'')"
    using True
    by (auto simp: create_enrollment_def Let_def create_document_enrollment_def
        split: prod.splits sum.splits dest: locate_bill_error add_bill_line_error)
  moreover have "\<not> (\<exists>d \<in> set (enrollment s).
          e_student_id (snd d) = e_student_id enr
        \<and> e_subject_id (snd d) = e_subject_id enr
        \<and> e_semester (snd d) = e_semester enr)"
    using True by (auto simp: filter_empty_conv)
  ultimately show ?thesis by blast
next
  case False
  then have "fst (create_enrollment now s enr) = Inl (HTTPException 400 ''Already enrolled'')"
    by (simp add: create_enrollment_def Let_def)
  moreover have "\<exists>d \<in> set (enrollment s).
          e_student_id (snd d) = e_student_id enr
        \<and> e_subject_id (snd d) = e_subject_id enr
        \<and> e_semester (snd d) = e_semester enr"
    using False by (auto simp: filter_empty_conv)
  ultimately show ?thesis by blast
qed

theorem duplicate_check_ignores_status_witness:
  "e_status (snd (hd (enrollment dropped_db))) = Dropped
   \<and> fst (create_enrollment 7 dropped_db
      \<lparr>e_student_id = ''stu1'', e_subject_id = ''math'', e_semester = ''2025-1'', e_status = Enrolled\<rparr>)
    = Inl (HTTPException 400 ''Already enrolled'')"
  using duplicate_check_ignores_status [of 7 dropped_db
      "\<lparr>e_student_id = ''stu1'', e_subject_id = ''math'', e_semester = ''2025-1'', e_status = Enrolled\<rparr>"]
  by (simp add: dropped_db_def)

text \<open>
  C7, as stated, fails: a malformed \<^verbatim>\<open>bill_id\<close> resolves to no bill, and the handler leaves
  with \<^verbatim>\<open>InvalidId\<close> from \<^verbatim>\<open>ObjectId\<close>, not with the 404.
\<close>

theorem payment_malformed_bill_id:
  "create_payment 7 empty_db \<lparr>pc_bill_id = ''xyz'', pc_amount = 10, pc_cashier_id = ''cash1''\<rparr>
     = (Inl InvalidId, empty_db)
   \<and> InvalidId \<noteq> HTTPException 404 ''Bill not found''"
  by (simp add: create_payment_def ObjectId_xyz)

text \<open>
  C7, amended. When \<^verbatim>\<open>bill_id\<close> is a well-formed identifier that matches no stored bill,
  \<^verbatim>\<open>create_payment\<close> raises the 404 "Bill not found" before any write: the database is the
  one it started from, so no payment is stored and no bill is changed.
\<close>

theorem payment_bill_not_found:
  assumes "ObjectId (pc_bill_id payload) = Inr i"
    and "find_one_by_id i (bill s) = None"
  shows "create_payment now s payload = (Inl (HTTPException 404 ''Bill not found''), s)
     \<and> payment (snd (create_payment now s payload)) = payment s
     \<and> bill (snd (create_payment now s payload)) = bill s"
  using assms by (simp add: create_payment_def)

theorem payment_bill_not_found_witness:
  "ObjectId ''000000000000000000000000'' = Inr 0 \<and> find_one_by_id 0 (bill billed_db) = None
   \<and> create_payment 7 billed_db
        \<lparr>pc_bill_id = ''000000000000000000000000'', pc_amount = 10, pc_cashier_id = ''cash1''\<rparr>
      = (Inl (HTTPException 404 ''Bill not found''), billed_db)"
  using payment_bill_not_found [of "\<lparr>pc_bill_id = ''000000000000000000000000'', pc_amount = 10, pc_cashier_id = ''cash1''\<rparr>"
      0 billed_db 7]
  by (simp add: ObjectId_zero find_one_by_id_def billed_db_def)

text \<open>
  C4. When \<^verbatim>\<open>bill_id\<close> resolves to a bill, \<^verbatim>\<open>create_payment\<close> succeeds and the bill then
  holds: paid = the paid of the bill read at the start plus the amount of the payment, and
  status = the Status Rule at that new paid and the total of the bill read at the start.
  The example pays 300 on a bill of total 300 and paid 0: paid becomes 300, status "paid".
\<close>

theorem payment_updates_paid_and_status:
  assumes "ObjectId (pc_bill_id payload) = Inr i"
    and "find_one_by_id i (bill s) = Some b"
  shows "\<exists>s'. create_payment now s payload = (Inr (str_oid (next_id s)), s')
          \<and> find_one_by_id i (bill s')
              = Some (i, (snd b)\<lparr>b_paid := b_paid (snd b) + pc_amount payload,
                                 b_status := status_rule (b_paid (snd b) + pc_amount payload)
                                               (b_total (snd b)),
                                 b_updated_at := Some now\<rparr>)"
  using assms find_one_by_id_fst [OF assms(2)]
  by (simp add: create_payment_def create_document_payment_def Let_def status_rule_def
      find_one_by_id_update_one)

theorem payment_updates_paid_and_status_witness:
  "\<exists>s'. create_payment 7 billed_db
          \<lparr>pc_bill_id = ''0000000000000000000000ff'', pc_amount = 300, pc_cashier_id = ''cash1''\<rparr>
        = (Inr (str_oid 256), s')
      \<and> map_option (\<lambda>d. (b_total (snd d), b_paid (snd d), b_status (snd d)))
           (find_one_by_id 255 (bill s')) = Some (300, 300, Paid)"
proof -
  let ?p = "\<lparr>pc_bill_id = ''0000000000000000000000ff'', pc_amount = 300, pc_cashier_id = ''cash1''\<rparr>"
  have h1: "ObjectId (pc_bill_id ?p) = Inr 255"
    by (simp add: ObjectId_ff)
  have h2: "find_one_by_id 255 (bill billed_db) = Some (hd (bill billed_db))"
    by (simp add: find_one_by_id_def billed_db_def)
  from payment_updates_paid_and_status [OF h1 h2, of 7]
  obtain s' where r: "create_payment 7 billed_db ?p = (Inr (str_oid (next_id billed_db)), s')"
    and b: "find_one_by_id 255 (bill s')
              = Some (255, (snd (hd (bill billed_db)))
                   \<lparr>b_paid := b_paid (snd (hd (bill billed_db))) + pc_amount ?p,
                    b_status := status_rule (b_paid (snd (hd (bill billed_db))) + pc_amount ?p)
                                  (b_total (snd (hd (bill billed_db)))),
                    b_updated_at := Some 7\<rparr>)"
    by blast
  have "next_id billed_db = 256"
    by (simp add: billed_db_def)
  with r have "create_payment 7 billed_db ?p = (Inr (str_oid 256), s')"
    by simp
  moreover have "map_option (\<lambda>d. (b_total (snd d), b_paid (snd d), b_status (snd d)))
           (find_one_by_id 255 (bill s')) = Some (300, 300, Paid)"
    by (simp add: b billed_db_def status_rule_def)
  ultimately show ?thesis by blast
qed

text \<open>
  C1. After a successful \<^verbatim>\<open>create_enrollment\<close> (on a database whose bill identifiers are in
  order) the bill of the student and semester, and after a successful \<^verbatim>\<open>create_payment\<close> the
  bill the payment names, have a stored status that satisfies the Status Rule for the stored
  paid and total: "paid" iff paid >= total and total > 0, "partial" iff not so and paid > 0,
  "unpaid" iff neither. In particular total = 0 and paid = 0 give "unpaid".
\<close>

theorem status_satisfies_rule:
  "(ids_ok s \<and> fst (create_enrollment now s enr) = Inr eid
      \<longrightarrow> (\<exists>b. find_bill (snd (create_enrollment now s enr)) (e_student_id enr) (e_semester enr) = Some b
              \<and> status_rule_holds (snd b)
              \<and> (b_total (snd b) = 0 \<and> b_paid (snd b) = 0 \<longrightarrow> b_status (snd b) = Unpaid)))
   \<and> (fst (create_payment now' s payload) = Inr pid
      \<longrightarrow> (\<exists>i b. ObjectId (pc_bill_id payload) = Inr i
              \<and> find_one_by_id i (bill (snd (create_payment now' s payload))) = Some b
              \<and> status_rule_holds (snd b)
              \<and> (b_total (snd b) = 0 \<and> b_paid (snd b) = 0 \<longrightarrow> b_status (snd b) = Unpaid)))"
proof (intro conjI impI)
  assume "ids_ok s \<and> fst (create_enrollment now s enr) = Inr eid"
  then have ok: "ids_ok s" and nd: "no_duplicate s enr"
    by (auto dest: create_enrollment_success_no_duplicate)
  from create_enrollment_post [OF ok nd, of now]
  obtain i b0 where
    "find_bill (snd (create_enrollment now s enr)) (e_student_id enr) (e_semester enr)
       = Some (i, reconciled now (tuition_line s enr) b0)"
    by blast
  moreover have "status_rule_holds (reconciled now (tuition_line s enr) b0)"
    by (simp add: status_rule_holds_iff)
  moreover have "b_total (reconciled now (tuition_line s enr) b0) = 0
        \<and> b_paid (reconciled now (tuition_line s enr) b0) = 0
      \<longrightarrow> b_status (reconciled now (tuition_line s enr) b0) = Unpaid"
    by (simp add: status_rule_def)
  ultimately show "\<exists>b. find_bill (snd (create_enrollment now s enr)) (e_student_id enr) (e_semester enr) = Some b
              \<and> status_rule_holds (snd b)
              \<and> (b_total (snd b) = 0 \<and> b_paid (snd b) = 0 \<longrightarrow> b_status (snd b) = Unpaid)"
    by simp
next
  assume "fst (create_payment now' s payload) = Inr pid"
  from create_payment_success [OF this]
  obtain i b where o: "ObjectId (pc_bill_id payload) = Inr i"
    and f: "find_one_by_id i (bill (snd (create_payment now' s payload)))
              = Some (i, b\<lparr>b_paid := b_paid b + pc_amount payload,
                           b_status := status_rule (b_paid b + pc_amount payload) (b_total b),
                           b_updated_at := Some now'\<rparr>)"
    by blast
  let ?b = "b\<lparr>b_paid := b_paid b + pc_amount payload,
                           b_status := status_rule (b_paid b + pc_amount payload) (b_total b),
                           b_updated_at := Some now'\<rparr>"
  have "status_rule_holds ?b"
    by (simp add: status_rule_holds_iff)
  moreover have "b_total ?b = 0 \<and> b_paid ?b = 0 \<longrightarrow> b_status ?b = Unpaid"
    by (simp add: status_rule_def)
  ultimately show "\<exists>i b. ObjectId (pc_bill_id payload) = Inr i
              \<and> find_one_by_id i (bill (snd (create_payment now' s payload))) = Some b
              \<and> status_rule_holds (snd b)
              \<and> (b_total (snd b) = 0 \<and> b_paid (snd b) = 0 \<longrightarrow> b_status (snd b) = Unpaid)"
    using o f by simp
qed

theorem status_satisfies_rule_witness:
  "ids_ok billed_db
   \<and> fst (create_enrollment 7 billed_db
        \<lparr>e_student_id = ''stu2'', e_subject_id = ''math'', e_semester = ''2025-1'', e_status = Enrolled\<rparr>)
       = Inr (str_oid 256)
   \<and> (\<exists>b. find_bill (snd (create_enrollment 7 billed_db
        \<lparr>e_student_id = ''stu2'', e_subject_id = ''math'', e_semester = ''2025-1'', e_status = Enrolled\<rparr>))
          ''stu2'' ''2025-1'' = Some b
        \<and> status_rule_holds (snd b)
        \<and> b_total (snd b) = 0 \<and> b_paid (snd b) = 0 \<and> b_status (snd b) = Unpaid)
   \<and> fst (create_payment 8 billed_db
        \<lparr>pc_bill_id = ''0000000000000000000000ff'', pc_amount = 150, pc_cashier_id = ''cash1''\<rparr>)
       = Inr (str_oid 256)
   \<and> (\<exists>b. find_one_by_id 255 (bill (snd (create_payment 8 billed_db
        \<lparr>pc_bill_id = ''0000000000000000000000ff'', pc_amount = 150, pc_cashier_id = ''cash1''\<rparr>)))
          = Some b
        \<and> status_rule_holds (snd b)
        \<and> b_total (snd b) = 300 \<and> b_paid (snd b) = 150 \<and> b_status (snd b) = Partial)"
proof -
  let ?e = "\<lparr>e_student_id = ''stu2'', e_subject_id = ''math'', e_semester = ''2025-1'', e_status = Enrolled\<rparr>"
  let ?p = "\<lparr>pc_bill_id = ''0000000000000000000000ff'', pc_amount = 150, pc_cashier_id = ''cash1''\<rparr>"
  let ?s1 = "snd (create_enrollment 7 billed_db ?e)"
  let ?s2 = "snd (create_payment 8 billed_db ?p)"
  have ok: "ids_ok billed_db"
    by (simp add: ids_ok_def billed_db_def)
  have nd: "no_duplicate billed_db ?e"
    by (simp add: no_duplicate_def billed_db_def)
  have "next_id billed_db = 256"
    by (simp add: billed_db_def)
  with create_enrollment_post [OF ok nd, of 7]
  have e: "fst (create_enrollment 7 billed_db ?e) = Inr (str_oid 256)"
    by auto
  have p: "fst (create_payment 8 billed_db ?p) = Inr (str_oid 256)"
    by (simp add: create_payment_def ObjectId_ff find_one_by_id_def billed_db_def
        create_document_payment_def Let_def)
  from status_satisfies_rule [of billed_db 7 ?e "str_oid 256" 8 ?p "str_oid 256"] ok e p
  have "\<exists>b. find_bill ?s1 ''stu2'' ''2025-1'' = Some b \<and> status_rule_holds (snd b)
          \<and> (b_total (snd b) = 0 \<and> b_paid (snd b) = 0 \<longrightarrow> b_status (snd b) = Unpaid)"
    and "\<exists>b. find_one_by_id 255 (bill ?s2) = Some b \<and> status_rule_holds (snd b)
          \<and> (b_total (snd b) = 0 \<and> b_paid (snd b) = 0 \<longrightarrow> b_status (snd b) = Unpaid)"
    by (simp_all add: ObjectId_ff)
  then obtain b1 b2 where f1: "find_bill ?s1 ''stu2'' ''2025-1'' = Some b1"
    and h1: "status_rule_holds (snd b1)"
    and z1: "b_total (snd b1) = 0 \<and> b_paid (snd b1) = 0 \<longrightarrow> b_status (snd b1) = Unpaid"
    and f2: "find_one_by_id 255 (bill ?s2) = Some b2"
    and h2: "status_rule_holds (snd b2)"
    by blast
  have a1: "\<forall>d \<in> set (bill billed_db). fst d < next_id billed_db"
    and a2: "Suc (next_id billed_db) < 16 ^ 24"
    and nb: "find_bill billed_db (e_student_id ?e) (e_semester ?e) = None"
    by (simp_all add: billed_db_def find_bill_def)
  have "bill ?s1 = bill billed_db @ [(Suc (next_id billed_db),
                          reconciled 7 (tuition_line billed_db ?e) (new_bill ?e))]"
    by (simp add: create_enrollment_new_bill [OF a1 a2 nd nb])
  then have "find_bill ?s1 ''stu2'' ''2025-1''
      = Some (257, reconciled 7 (tuition_line billed_db ?e) (new_bill ?e))"
    by (simp add: find_bill_def billed_db_def new_bill_def)
  with f1 have b1: "snd b1 = reconciled 7 (tuition_line billed_db ?e) (new_bill ?e)"
    by auto
  have v1: "b_total (snd b1) = 0 \<and> b_paid (snd b1) = 0"
    by (simp add: b1 tuition_line_def enrollment_fee_def ObjectId_math new_bill_def)
  with z1 have u1: "b_status (snd b1) = Unpaid"
    by simp
  have "find_one_by_id 255 (bill ?s2)
      = Some (255, \<lparr>b_student_id = ''stu1'', b_semester = ''2025-1'',
                     b_lines = [\<lparr>l_subject_id = ''math'', l_description = ''Tuition for subject'',
                                 l_amount = 300\<rparr>],
                     b_total = 300, b_paid = 150, b_status = Partial, b_updated_at = Some 8\<rparr>)"
    by (simp add: create_payment_def ObjectId_ff find_one_by_id_def billed_db_def
        create_document_payment_def Let_def)
  with f2 have v2: "b_total (snd b2) = 300 \<and> b_paid (snd b2) = 150 \<and> b_status (snd b2) = Partial"
    by auto
  from ok e p f1 h1 v1 u1 f2 h2 v2 show ?thesis
    by simp
qed

text \<open>
  C2. After a successful \<^verbatim>\<open>create_enrollment\<close> the bill of the student and semester has its
  total equal to the sum of the amounts of its lines; and the property that every stored bill
  has total = sum of its lines is kept by \<^verbatim>\<open>create_enrollment\<close> and by \<^verbatim>\<open>create_payment\<close>,
  so it holds of every bill after every reconciliation step, starting from no bills.
\<close>

theorem total_is_sum_of_lines:
  "(ids_ok s \<and> fst (create_enrollment now s enr) = Inr eid
      \<longrightarrow> (\<exists>b. find_bill (snd (create_enrollment now s enr)) (e_student_id enr) (e_semester enr) = Some b
              \<and> b_total (snd b) = sum_list (map l_amount (b_lines (snd b)))))
   \<and> (totals_ok s \<longrightarrow> totals_ok (snd (create_enrollment now s enr)))
   \<and> (totals_ok s \<longrightarrow> totals_ok (snd (create_payment now' s payload)))"
proof (intro conjI impI)
  assume "ids_ok s \<and> fst (create_enrollment now s enr) = Inr eid"
  then have ok: "ids_ok s" and nd: "no_duplicate s enr"
    by (auto dest: create_enrollment_success_no_duplicate)
  from create_enrollment_post [OF ok nd, of now]
  obtain i b0 where
    "find_bill (snd (create_enrollment now s enr)) (e_student_id enr) (e_semester enr)
       = Some (i, reconciled now (tuition_line s enr) b0)"
    by blast
  then show "\<exists>b. find_bill (snd (create_enrollment now s enr)) (e_student_id enr) (e_semester enr) = Some b
              \<and> b_total (snd b) = sum_list (map l_amount (b_lines (snd b)))"
    by simp
next
  let ?Q = "\<lambda>d. b_total (snd d) = sum_list (map l_amount (b_lines (snd d)))"
  assume t: "totals_ok s"
  from create_enrollment_bill_shape [of s now enr]
  obtain c where c: "c = bill s \<or> c = bill s @ [(Suc (next_id s), new_bill enr)]"
    and r: "bill (snd (create_enrollment now s enr)) = c
          \<or> (\<exists>i line. bill (snd (create_enrollment now s enr)) = update_one i (reconciled now line) c)"
    by blast
  from c t have "list_all ?Q c"
    by (auto simp: totals_ok_def new_bill_def)
  with r have "list_all ?Q (bill (snd (create_enrollment now s enr)))"
    by (auto intro!: list_all_update_one)
  then show "totals_ok (snd (create_enrollment now s enr))"
    by (simp add: totals_ok_def)
next
  let ?Q = "\<lambda>d. b_total (snd d) = sum_list (map l_amount (b_lines (snd d)))"
  assume t: "totals_ok s"
  with create_payment_bill_shape [of now' s payload]
  have "list_all ?Q (bill (snd (create_payment now' s payload)))"
    by (auto simp: totals_ok_def intro!: list_all_update_one)
  then show "totals_ok (snd (create_payment now' s payload))"
    by (simp add: totals_ok_def)
qed

theorem total_is_sum_of_lines_witness:
  "ids_ok billed_db \<and> totals_ok billed_db
   \<and> fst (create_enrollment 7 billed_db
        \<lparr>e_student_id = ''stu1'', e_subject_id = ''art'', e_semester = ''2025-1'', e_status = Enrolled\<rparr>)
       = Inr (str_oid 256)
   \<and> (\<exists>b. find_bill (snd (create_enrollment 7 billed_db
        \<lparr>e_student_id = ''stu1'', e_subject_id = ''art'', e_semester = ''2025-1'', e_status = Enrolled\<rparr>))
          ''stu1'' ''2025-1'' = Some b
         \<and> b_total (snd b) = sum_list (map l_amount (b_lines (snd b))))
   \<and> totals_ok (snd (create_enrollment 7 billed_db
        \<lparr>e_student_id = ''stu1'', e_subject_id = ''art'', e_semester = ''2025-1'', e_status = Enrolled\<rparr>))
   \<and> totals_ok (snd (create_payment 8 billed_db
        \<lparr>pc_bill_id = ''0000000000000000000000ff'', pc_amount = 150, pc_cashier_id = ''cash1''\<rparr>))"
proof -
  let ?e = "\<lparr>e_student_id = ''stu1'', e_subject_id = ''art'', e_semester = ''2025-1'', e_status = Enrolled\<rparr>"
  let ?p = "\<lparr>pc_bill_id = ''0000000000000000000000ff'', pc_amount = 150, pc_cashier_id = ''cash1''\<rparr>"
  have ok: "ids_ok billed_db"
    by (simp add: ids_ok_def billed_db_def)
  have t: "totals_ok billed_db"
    by (simp add: totals_ok_def billed_db_def)
  have nd: "no_duplicate billed_db ?e"
    by (simp add: no_duplicate_def billed_db_def)
  have "next_id billed_db = 256"
    by (simp add: billed_db_def)
  with create_enrollment_post [OF ok nd, of 7]
  have e: "fst (create_enrollment 7 billed_db ?e) = Inr (str_oid 256)"
    by auto
  from total_is_sum_of_lines [of billed_db 7 ?e "str_oid 256" 8 ?p] ok t e
  show ?thesis
    by simp
qed

text \<open>
  C5. On a database whose bill identifiers are in order, an enrollment that is not a duplicate
  succeeds and is stored, and the last line of the bill of its student and semester is the
  tuition line of its subject, with amount 0 when \<^verbatim>\<open>subject_id\<close> is malformed
  (\<^verbatim>\<open>ObjectId\<close> raises) or matches no stored subject, and units * fee_per_unit of the
  subject otherwise.
\<close>

theorem unresolved_subject_costs_nothing:
  assumes "ids_ok s" and "no_duplicate s enr"
  shows "fst (create_enrollment now s enr) = Inr (str_oid (next_id s))
     \<and> enrollment (snd (create_enrollment now s enr)) = enrollment s @ [(next_id s, enr)]
     \<and> (\<exists>b a. find_bill (snd (create_enrollment now s enr)) (e_student_id enr) (e_semester enr) = Some b
          \<and> b_lines (snd b) \<noteq> []
          \<and> last (b_lines (snd b))
              = \<lparr>l_subject_id = e_subject_id enr, l_description = ''Tuition for subject'', l_amount = a\<rparr>
          \<and> (\<forall>e. ObjectId (e_subject_id enr) = Inl e \<longrightarrow> a = 0)
          \<and> (\<forall>i. ObjectId (e_subject_id enr) = Inr i \<and> find_one_by_id i (subject s) = None \<longrightarrow> a = 0)
          \<and> (\<forall>i d. ObjectId (e_subject_id enr) = Inr i \<and> find_one_by_id i (subject s) = Some d
                \<longrightarrow> a = units (snd d) * fee_per_unit (snd d)))"
proof -
  from create_enrollment_post [OF assms, of now]
  obtain i b0 where f: "fst (create_enrollment now s enr) = Inr (str_oid (next_id s))"
    and b: "find_bill (snd (create_enrollment now s enr)) (e_student_id enr) (e_semester enr)
               = Some (i, reconciled now (tuition_line s enr) b0)"
    by blast
  let ?a = "enrollment_fee s (e_subject_id enr)"
  have "b_lines (reconciled now (tuition_line s enr) b0) \<noteq> []"
    and "last (b_lines (reconciled now (tuition_line s enr) b0))
          = \<lparr>l_subject_id = e_subject_id enr, l_description = ''Tuition for subject'', l_amount = ?a\<rparr>"
    by (simp_all add: tuition_line_def)
  moreover have "\<forall>e. ObjectId (e_subject_id enr) = Inl e \<longrightarrow> ?a = 0"
    and "\<forall>i. ObjectId (e_subject_id enr) = Inr i \<and> find_one_by_id i (subject s) = None \<longrightarrow> ?a = 0"
    and "\<forall>i d. ObjectId (e_subject_id enr) = Inr i \<and> find_one_by_id i (subject s) = Some d
                \<longrightarrow> ?a = units (snd d) * fee_per_unit (snd d)"
    by (simp_all add: enrollment_fee_def)
  ultimately have "\<exists>b a. find_bill (snd (create_enrollment now s enr)) (e_student_id enr) (e_semester enr) = Some b
          \<and> b_lines (snd b) \<noteq> []
          \<and> last (b_lines (snd b))
              = \<lparr>l_subject_id = e_subject_id enr, l_description = ''Tuition for subject'', l_amount = a\<rparr>
          \<and> (\<forall>e. ObjectId (e_subject_id enr) = Inl e \<longrightarrow> a = 0)
          \<and> (\<forall>i. ObjectId (e_subject_id enr) = Inr i \<and> find_one_by_id i (subject s) = None \<longrightarrow> a = 0)
          \<and> (\<forall>i d. ObjectId (e_subject_id enr) = Inr i \<and> find_one_by_id i (subject s) = Some d
                \<longrightarrow> a = units (snd d) * fee_per_unit (snd d))"
    using b
    by (intro exI [of _ "(i, reconciled now (tuition_line s enr) b0)"] exI [of _ ?a]) simp
  with f create_enrollment_enrollments [OF assms, of now] show ?thesis
    by simp
qed

theorem unresolved_subject_costs_nothing_witness:
  "ids_ok catalog_db
   \<and> ObjectId ''math'' = Inl InvalidId
   \<and> fst (create_enrollment 7 catalog_db
        \<lparr>e_student_id = ''stu1'', e_subject_id = ''math'', e_semester = ''2025-1'', e_status = Enrolled\<rparr>)
       = Inr (str_oid 256)
   \<and> (\<exists>b. find_bill (snd (create_enrollment 7 catalog_db
        \<lparr>e_student_id = ''stu1'', e_subject_id = ''math'', e_semester = ''2025-1'', e_status = Enrolled\<rparr>))
          ''stu1'' ''2025-1'' = Some b
         \<and> l_amount (last (b_lines (snd b))) = 0)
   \<and> ObjectId ''000000000000000000000000'' = Inr 0 \<and> find_one_by_id 0 (subject catalog_db) = None
   \<and> (\<exists>b. find_bill (snd (create_enrollment 7 catalog_db
        \<lparr>e_student_id = ''stu1'', e_subject_id = ''000000000000000000000000'',
         e_semester = ''2025-1'', e_status = Enrolled\<rparr>))
          ''stu1'' ''2025-1'' = Some b
         \<and> l_amount (last (b_lines (snd b))) = 0)
   \<and> ObjectId ''0000000000000000000000ff'' = Inr 255
   \<and> (\<exists>b. find_bill (snd (create_enrollment 7 catalog_db
        \<lparr>e_student_id = ''stu1'', e_subject_id = ''0000000000000000000000ff'',
         e_semester = ''2025-1'', e_status = Enrolled\<rparr>))
          ''stu1'' ''2025-1'' = Some b
         \<and> l_amount (last (b_lines (snd b))) = 300)"
proof -
  let ?e1 = "\<lparr>e_student_id = ''stu1'', e_subject_id = ''math'', e_semester = ''2025-1'', e_status = Enrolled\<rparr>"
  let ?e2 = "\<lparr>e_student_id = ''stu1'', e_subject_id = ''000000000000000000000000'',
         e_semester = ''2025-1'', e_status = Enrolled\<rparr>"
  let ?e3 = "\<lparr>e_student_id = ''stu1'', e_subject_id = ''0000000000000000000000ff'',
         e_semester = ''2025-1'', e_status = Enrolled\<rparr>"
  have ok: "ids_ok catalog_db"
    by (simp add: ids_ok_def catalog_db_def)
  have nd: "no_duplicate catalog_db ?e1" "no_duplicate catalog_db ?e2" "no_duplicate catalog_db ?e3"
    by (simp_all add: no_duplicate_def catalog_db_def)
  have n: "next_id catalog_db = 256"
    by (simp add: catalog_db_def)
  have o1: "ObjectId ''math'' = Inl InvalidId"
    by (simp add: ObjectId_def)
  have s0: "find_one_by_id 0 (subject catalog_db) = None"
    by (simp add: find_one_by_id_def catalog_db_def)
  have s255: "find_one_by_id 255 (subject catalog_db)
      = Some (255, \<lparr>code = ''CS101'', title = ''Programming'', units = 3,
                        fee_per_unit = 100, faculty_id = None\<rparr>)"
    by (simp add: find_one_by_id_def catalog_db_def)
  from unresolved_subject_costs_nothing [OF ok nd(1), of 7] o1 n
  have r1: "fst (create_enrollment 7 catalog_db ?e1) = Inr (str_oid 256)
      \<and> (\<exists>b. find_bill (snd (create_enrollment 7 catalog_db ?e1)) ''stu1'' ''2025-1'' = Some b
         \<and> l_amount (last (b_lines (snd b))) = 0)"
    by auto
  from unresolved_subject_costs_nothing [OF ok nd(2), of 7] ObjectId_zero s0
  have r2: "\<exists>b. find_bill (snd (create_enrollment 7 catalog_db ?e2)) ''stu1'' ''2025-1'' = Some b
         \<and> l_amount (last (b_lines (snd b))) = 0"
    by auto
  from unresolved_subject_costs_nothing [OF ok nd(3), of 7] ObjectId_ff s255
  have r3: "\<exists>b. find_bill (snd (create_enrollment 7 catalog_db ?e3)) ''stu1'' ''2025-1'' = Some b
         \<and> l_amount (last (b_lines (snd b))) = 300"
    by auto
  from ok o1 r1 ObjectId_zero s0 r2 ObjectId_ff r3 show ?thesis
    by simp
qed

text \<open>
  C6. \<^verbatim>\<open>create_enrollment\<close> creates a bill only when no bill has the student and semester of
  the enrollment: if no two stored bills share a (student, semester) pair, that is still so
  after \<^verbatim>\<open>create_enrollment\<close> and after \<^verbatim>\<open>create_payment\<close>. And two enrollments in a row of
  one student in one semester, for different subjects, starting without a bill for the pair,
  both succeed and leave exactly one bill for the pair, one bill more than before, with two
  lines.
\<close>

theorem one_bill_per_student_and_semester:
  "(distinct (bill_keys s) \<longrightarrow> distinct (bill_keys (snd (create_enrollment now s enr))))
   \<and> (distinct (bill_keys s) \<longrightarrow> distinct (bill_keys (snd (create_payment now s payload))))
   \<and> (ids_ok s \<and> find_bill s stu sem = None
        \<and> e_student_id e1 = stu \<and> e_semester e1 = sem
        \<and> e_student_id e2 = stu \<and> e_semester e2 = sem
        \<and> e_subject_id e1 \<noteq> e_subject_id e2
        \<and> no_duplicate s e1 \<and> no_duplicate s e2
      \<longrightarrow> (\<exists>eid1 s1 eid2 s2 b.
             create_enrollment now1 s e1 = (Inr eid1, s1)
           \<and> create_enrollment now2 s1 e2 = (Inr eid2, s2)
           \<and> filter (\<lambda>d. b_student_id (snd d) = stu \<and> b_semester (snd d) = sem) (bill s2) = [b]
           \<and> length (bill s2) = Suc (length (bill s))
           \<and> length (b_lines (snd b)) = 2))"
proof (intro conjI impI)
  assume "distinct (bill_keys s)"
  then show "distinct (bill_keys (snd (create_enrollment now s enr)))"
    by (rule bill_keys_create_enrollment)
next
  assume "distinct (bill_keys s)"
  then show "distinct (bill_keys (snd (create_payment now s payload)))"
    by (simp add: bill_keys_create_payment)
next
  assume a: "ids_ok s \<and> find_bill s stu sem = None
        \<and> e_student_id e1 = stu \<and> e_semester e1 = sem
        \<and> e_student_id e2 = stu \<and> e_semester e2 = sem
        \<and> e_subject_id e1 \<noteq> e_subject_id e2
        \<and> no_duplicate s e1 \<and> no_duplicate s e2"
  let ?P = "\<lambda>d. b_student_id (snd d) = stu \<and> b_semester (snd d) = sem"
  let ?n = "next_id s"
  let ?b1 = "reconciled now1 (tuition_line s e1) (new_bill e1)"
  let ?s1 = "s\<lparr>enrollment := enrollment s @ [(?n, e1)],
                bill := bill s @ [(Suc ?n, ?b1)],
                next_id := Suc (Suc ?n)\<rparr>"
  let ?b2 = "reconciled now2 (tuition_line ?s1 e2) ?b1"
  let ?s2 = "?s1\<lparr>enrollment := enrollment ?s1 @ [(Suc (Suc ?n), e2)],
                bill := bill s @ [(Suc ?n, ?b2)],
                next_id := Suc (Suc (Suc ?n))\<rparr>"
  from a have a1: "\<forall>d \<in> set (bill s). fst d < ?n" and a2: "Suc ?n < 16 ^ 24"
    and dist: "distinct (map fst (bill s))"
    by (simp_all add: ids_ok_def)
  from a have nb: "find_bill s (e_student_id e1) (e_semester e1) = None"
    by simp
  from a have nd1: "no_duplicate s e1" by simp
  have step1: "create_enrollment now1 s e1 = (Inr (str_oid ?n), ?s1)"
    by (rule create_enrollment_new_bill [OF a1 a2 nd1 nb])
  have fresh: "Suc ?n \<notin> fst ` set (bill s)"
    using a1 by fastforce
  have dist1: "distinct (map fst (bill ?s1))"
    using dist fresh by simp
  have nd2: "no_duplicate ?s1 e2"
    using a by (auto simp: no_duplicate_def)
  have fnone: "find ?P (bill s) = None"
    using a by (simp add: find_bill_def)
  have b1key: "?P (Suc ?n, ?b1)"
    using a by (simp add: new_bill_def)
  have fb1: "find_bill ?s1 (e_student_id e2) (e_semester e2) = Some (Suc ?n, ?b1)"
    using a find_snoc_new [OF fnone b1key] by (simp add: find_bill_def)
  have step2: "create_enrollment now2 ?s1 e2 = (Inr (str_oid (Suc (Suc ?n))), ?s2)"
    using create_enrollment_existing_bill [OF dist1 nd2 fb1, of now2] fresh
    by (simp add: update_one_snoc)
  have "filter ?P (bill s) = []"
    using fnone by (simp add: find_None_filter)
  moreover have "?P (Suc ?n, ?b2)"
    using a by (simp add: new_bill_def)
  ultimately have flt: "filter ?P (bill ?s2) = [(Suc ?n, ?b2)]"
    by simp
  have len: "length (bill ?s2) = Suc (length (bill s))"
    by simp
  have lines: "length (b_lines (snd (Suc ?n, ?b2))) = 2"
    by (simp add: new_bill_def)
  show "\<exists>eid1 s1 eid2 s2 b.
             create_enrollment now1 s e1 = (Inr eid1, s1)
           \<and> create_enrollment now2 s1 e2 = (Inr eid2, s2)
           \<and> filter ?P (bill s2) = [b]
           \<and> length (bill s2) = Suc (length (bill s))
           \<and> length (b_lines (snd b)) = 2"
    using step1 step2 flt len lines by blast
qed

theorem one_bill_per_student_and_semester_witness:
  "distinct (bill_keys billed_db)
   \<and> distinct (bill_keys (snd (create_enrollment 7 billed_db
        \<lparr>e_student_id = ''stu2'', e_subject_id = ''math'', e_semester = ''2025-1'', e_status = Enrolled\<rparr>)))
   \<and> distinct (bill_keys (snd (create_payment 7 billed_db
        \<lparr>pc_bill_id = ''0000000000000000000000ff'', pc_amount = 150, pc_cashier_id = ''cash1''\<rparr>)))
   \<and> ids_ok billed_db \<and> find_bill billed_db ''stu2'' ''2025-1'' = None
   \<and> (\<exists>eid1 s1 eid2 s2 b.
         create_enrollment 7 billed_db
            \<lparr>e_student_id = ''stu2'', e_subject_id = ''math'', e_semester = ''2025-1'', e_status = Enrolled\<rparr>
           = (Inr eid1, s1)
       \<and> create_enrollment 8 s1
            \<lparr>e_student_id = ''stu2'', e_subject_id = ''art'', e_semester = ''2025-1'', e_status = Enrolled\<rparr>
           = (Inr eid2, s2)
       \<and> filter (\<lambda>d. b_student_id (snd d) = ''stu2'' \<and> b_semester (snd d) = ''2025-1'') (bill s2) = [b]
       \<and> length (bill s2) = 2
       \<and> length (b_lines (snd b)) = 2)"
proof -
  let ?e1 = "\<lparr>e_student_id = ''stu2'', e_subject_id = ''math'', e_semester = ''2025-1'', e_status = Enrolled\<rparr>"
  let ?e2 = "\<lparr>e_student_id = ''stu2'', e_subject_id = ''art'', e_semester = ''2025-1'', e_status = Enrolled\<rparr>"
  let ?p = "\<lparr>pc_bill_id = ''0000000000000000000000ff'', pc_amount = 150, pc_cashier_id = ''cash1''\<rparr>"
  have k: "distinct (bill_keys billed_db)"
    by (simp add: bill_keys_def billed_db_def)
  have ok: "ids_ok billed_db"
    by (simp add: ids_ok_def billed_db_def)
  have nb: "find_bill billed_db ''stu2'' ''2025-1'' = None"
    by (simp add: find_bill_def billed_db_def)
  have nd: "no_duplicate billed_db ?e1" "no_duplicate billed_db ?e2"
    by (simp_all add: no_duplicate_def billed_db_def)
  have len: "length (bill billed_db) = 1"
    by (simp add: billed_db_def)
  from one_bill_per_student_and_semester [of billed_db 7 ?e1 ?p "''stu2''" "''2025-1''" ?e1 ?e2 7 8]
    k ok nb nd len
  show ?thesis
    by (simp add: numeral_2_eq_2)
qed

text \<open>
  C8, as stated, fails: neither \<^verbatim>\<open>PaymentCreate\<close> nor the \<^verbatim>\<open>Payment\<close> schema constrains
  \<^verbatim>\<open>amount\<close>. A payment of -50 on a bill with paid 0 is accepted and stored, and the paid of
  the bill goes down to -50.
\<close>

theorem negative_payment_accepted:
  "fst (create_payment 7 billed_db
         \<lparr>pc_bill_id = ''0000000000000000000000ff'', pc_amount = - 50, pc_cashier_id = ''cash1''\<rparr>)
     = Inr (str_oid 256)
   \<and> p_amount (snd (last (payment (snd (create_payment 7 billed_db
         \<lparr>pc_bill_id = ''0000000000000000000000ff'', pc_amount = - 50, pc_cashier_id = ''cash1''\<rparr>)))))
     = - 50
   \<and> b_paid (snd (hd (bill billed_db))) = 0
   \<and> b_paid (snd (hd (bill (snd (create_payment 7 billed_db
         \<lparr>pc_bill_id = ''0000000000000000000000ff'', pc_amount = - 50, pc_cashier_id = ''cash1''\<rparr>)))))
     = - 50"
  by (simp add: create_payment_def ObjectId_ff find_one_by_id_def billed_db_def
      create_document_payment_def Let_def)

text \<open>
  C8, amended. The amount of a payment is not validated. The paid of a bill is 0 when
  \<^verbatim>\<open>create_enrollment\<close> creates the bill, \<^verbatim>\<open>create_enrollment\<close> changes the paid of no stored
  bill, and across a \<^verbatim>\<open>create_payment\<close> whose amount is not negative the paid of no bill
  goes down.
\<close>

theorem paid_changes_only_by_payments:
  "(\<exists>new. map (\<lambda>d. (fst d, b_paid (snd d))) (bill (snd (create_enrollment now s enr)))
            = map (\<lambda>d. (fst d, b_paid (snd d))) (bill s) @ new
          \<and> (\<forall>x \<in> set new. snd x = 0))
   \<and> (0 \<le> pc_amount payload
      \<longrightarrow> list_all2 (\<lambda>d d'. fst d' = fst d \<and> b_paid (snd d) \<le> b_paid (snd d'))
            (bill s) (bill (snd (create_payment now' s payload))))"
proof (intro conjI impI)
  let ?g = "\<lambda>d. (fst d, b_paid (snd d))"
  from create_enrollment_bill_shape [of s now enr]
  obtain c where c: "c = bill s \<or> c = bill s @ [(Suc (next_id s), new_bill enr)]"
    and r: "bill (snd (create_enrollment now s enr)) = c
          \<or> (\<exists>i line. bill (snd (create_enrollment now s enr)) = update_one i (reconciled now line) c)"
    by blast
  have u: "map ?g (update_one i (reconciled now line) c) = map ?g c" for i line
    by (rule map_update_one_unchanged) simp
  from r u have m: "map ?g (bill (snd (create_enrollment now s enr))) = map ?g c"
    by auto
  from c show "\<exists>new. map ?g (bill (snd (create_enrollment now s enr))) = map ?g (bill s) @ new
          \<and> (\<forall>x \<in> set new. snd x = 0)"
  proof
    assume "c = bill s"
    with m have "map ?g (bill (snd (create_enrollment now s enr))) = map ?g (bill s) @ []"
      by simp
    then show ?thesis by (intro exI [of _ "[]"]) simp
  next
    assume "c = bill s @ [(Suc (next_id s), new_bill enr)]"
    with m have "map ?g (bill (snd (create_enrollment now s enr)))
        = map ?g (bill s) @ [(Suc (next_id s), 0)]"
      by (simp add: new_bill_def)
    then show ?thesis by (intro exI [of _ "[(Suc (next_id s), 0)]"]) simp
  qed
next
  let ?R = "\<lambda>d d'. fst d' = fst d \<and> b_paid (snd d) \<le> b_paid (snd d')"
  assume nonneg: "0 \<le> pc_amount payload"
  from create_payment_bill_shape [of now' s payload]
  show "list_all2 ?R (bill s) (bill (snd (create_payment now' s payload)))"
  proof
    assume "bill (snd (create_payment now' s payload)) = bill s"
    then show ?thesis by (simp add: list_all2_refl)
  next
    assume "\<exists>i b. bill (snd (create_payment now' s payload))
        = update_one i (\<lambda>d. d\<lparr>b_paid := b_paid b + pc_amount payload,
                                b_status := status_rule (b_paid b + pc_amount payload) (b_total b),
                                b_updated_at := Some now'\<rparr>) (bill s)
        \<and> find_one_by_id i (bill s) = Some (i, b)"
    then obtain i b where u: "bill (snd (create_payment now' s payload))
        = update_one i (\<lambda>d. d\<lparr>b_paid := b_paid b + pc_amount payload,
                                b_status := status_rule (b_paid b + pc_amount payload) (b_total b),
                                b_updated_at := Some now'\<rparr>) (bill s)"
      and f: "find_one_by_id i (bill s) = Some (i, b)"
      by blast
    have "update_one i (\<lambda>d. d\<lparr>b_paid := b_paid b + pc_amount payload,
                                b_status := status_rule (b_paid b + pc_amount payload) (b_total b),
                                b_updated_at := Some now'\<rparr>) (bill s)
        = update_one i (\<lambda>d. d\<lparr>b_paid := b_paid d + pc_amount payload,
                                b_status := status_rule (b_paid b + pc_amount payload) (b_total b),
                                b_updated_at := Some now'\<rparr>) (bill s)"
      by (rule update_one_cong_found [OF f]) simp
    moreover have "list_all2 ?R (bill s)
        (update_one i (\<lambda>d. d\<lparr>b_paid := b_paid d + pc_amount payload,
                                b_status := status_rule (b_paid b + pc_amount payload) (b_total b),
                                b_updated_at := Some now'\<rparr>) (bill s))"
      using nonneg by (intro list_all2_update_one) simp_all
    ultimately show ?thesis
      using u by simp
  qed
qed

theorem paid_changes_only_by_payments_witness:
  "map (\<lambda>d. (fst d, b_paid (snd d))) (bill (snd (create_enrollment 7 empty_db
        \<lparr>e_student_id = ''stu1'', e_subject_id = ''math'', e_semester = ''2025-1'', e_status = Enrolled\<rparr>)))
     = [(1, 0)]
   \<and> (0::real) \<le> 150
   \<and> list_all2 (\<lambda>d d'. fst d' = fst d \<and> b_paid (snd d) \<le> b_paid (snd d'))
        (bill billed_db)
        (bill (snd (create_payment 8 billed_db
           \<lparr>pc_bill_id = ''0000000000000000000000ff'', pc_amount = 150, pc_cashier_id = ''cash1''\<rparr>)))
   \<and> map (\<lambda>d. b_paid (snd d)) (bill (snd (create_payment 8 billed_db
           \<lparr>pc_bill_id = ''0000000000000000000000ff'', pc_amount = 150, pc_cashier_id = ''cash1''\<rparr>)))
       = [150]"
proof -
  let ?e = "\<lparr>e_student_id = ''stu1'', e_subject_id = ''math'', e_semester = ''2025-1'', e_status = Enrolled\<rparr>"
  let ?p = "\<lparr>pc_bill_id = ''0000000000000000000000ff'', pc_amount = 150, pc_cashier_id = ''cash1''\<rparr>"
  have a1: "\<forall>d \<in> set (bill empty_db). fst d < next_id empty_db"
    and a2: "Suc (next_id empty_db) < 16 ^ 24"
    and nd: "no_duplicate empty_db ?e"
    and nb: "find_bill empty_db (e_student_id ?e) (e_semester ?e) = None"
    by (simp_all add: empty_db_def no_duplicate_def find_bill_def)
  have "bill (snd (create_enrollment 7 empty_db ?e))
      = bill empty_db @ [(Suc (next_id empty_db),
                          reconciled 7 (tuition_line empty_db ?e) (new_bill ?e))]"
    by (simp add: create_enrollment_new_bill [OF a1 a2 nd nb])
  then have e: "map (\<lambda>d. (fst d, b_paid (snd d))) (bill (snd (create_enrollment 7 empty_db ?e)))
      = [(1, 0)]"
    by (simp add: empty_db_def new_bill_def)
  have p: "map (\<lambda>d. b_paid (snd d)) (bill (snd (create_payment 8 billed_db ?p))) = [150]"
    by (simp add: create_payment_def ObjectId_ff find_one_by_id_def billed_db_def
        create_document_payment_def Let_def)
  from paid_changes_only_by_payments [of 7 empty_db ?e ?p 8]
    paid_changes_only_by_payments [of 7 billed_db ?e ?p 8] e p
  show ?thesis
    by simp
qed

end
